theory Spec2Isabelle
  imports Main
begin

section \<open>Data model\<close>

text \<open>
  The development embeds \<^verbatim>\<open>slogkit/context_handler.go\<close>: the decorator
  \<^verbatim>\<open>ContextHandler\<close> over a structured-log sink, its constructor and its
  three methods. Go's \<^verbatim>\<open>slog.Level\<close> is an integer (Debug = -4, Info = 0,
  Warn = 4, Error = 8); an attribute is a key with a typed value. Only the scalar kinds of
  \<^verbatim>\<open>slog.Value\<close> are modelled.
\<close>

type_synonym Level = int

definition LevelInfo :: Level where
  "LevelInfo = 0"

definition LevelWarn :: Level where
  "LevelWarn = 4"

definition LevelError :: Level where
  "LevelError = 8"

datatype Value = StringValue string | Int64Value int | BoolValue bool

type_synonym Attr = "string \<times> Value"

text \<open>A Go \<^verbatim>\<open>error\<close> value; \<open>Error\<close> is its message.\<close>

datatype error = errors_New (Error: string)

text \<open>
  \<^verbatim>\<open>context.Context\<close>. \<^verbatim>\<open>context.Background()\<close> is a canonical value, and the
  comparison \<^verbatim>\<open>ctx == context.Background()\<close> of the source is equality with it.
\<close>

datatype Context = Background | TODO | WithValue Context string string

text \<open>
  \<^verbatim>\<open>slog.Record\<close>: a fresh value per emit call, mutated only by
  \<^verbatim>\<open>AddAttrs\<close>, which appends.
\<close>

record Record =
  Time :: nat
  Message :: string
  Level :: Level
  attrs :: "Attr list"

definition NewRecord :: "nat \<Rightarrow> Level \<Rightarrow> string \<Rightarrow> Record" where
  "NewRecord t l m = \<lparr>Time = t, Message = m, Level = l, attrs = []\<rparr>"

definition AddAttrs :: "Record \<Rightarrow> Attr list \<Rightarrow> Record" where
  "AddAttrs r as = r\<lparr>attrs := attrs r @ as\<rparr>"

text \<open>An \<^verbatim>\<open>io.Writer\<close>; \<^verbatim>\<open>nil\<close> in the options is \<open>None\<close>.\<close>

datatype Writer = Stdout | Stderr | Buffer nat

text \<open>
  What a sink hands to its writer for one record: the encoding, the built-in fields and
  the attributes, each with the path of groups it nests under (outermost first).
\<close>

record Line =
  json :: bool
  time :: "nat option"
  level :: Level
  msg :: string
  entries :: "(string list \<times> Attr) list"

section \<open>The wrapped sink\<close>

text \<open>
  Modelled from the spec: the Base Sink of section 4.2, which in the source is the
  text or JSON handler of Go's \<^verbatim>\<open>log/slog\<close> and is not part of the repository.
  The contract consumed is: a level filter, accumulation of static attributes, group
  nesting, and format-and-write of a record returning the writer's error. Attributes
  added by \<open>sink_WithAttrs\<close> keep the group path that was open when they were added;
  a record's attributes nest under the path open at emit time; an empty group name
  returns the receiver; a zero record time is omitted.
\<close>

record Sink =
  Json :: bool
  MinLevel :: Level
  Dest :: Writer
  preformatted :: "(string list \<times> Attr) list"
  groups :: "string list"

definition NewTextHandler :: "Writer \<Rightarrow> Level \<Rightarrow> Sink" where
  "NewTextHandler wr l = \<lparr>Json = False, MinLevel = l, Dest = wr, preformatted = [], groups = []\<rparr>"

definition NewJSONHandler :: "Writer \<Rightarrow> Level \<Rightarrow> Sink" where
  "NewJSONHandler wr l = \<lparr>Json = True, MinLevel = l, Dest = wr, preformatted = [], groups = []\<rparr>"

definition sink_Enabled :: "Sink \<Rightarrow> Level \<Rightarrow> bool" where
  "sink_Enabled s l = (MinLevel s \<le> l)"

definition sink_WithAttrs :: "Sink \<Rightarrow> Attr list \<Rightarrow> Sink" where
  "sink_WithAttrs s as = s\<lparr>preformatted := preformatted s @ map (Pair (groups s)) as\<rparr>"

definition sink_WithGroup :: "Sink \<Rightarrow> string \<Rightarrow> Sink" where
  "sink_WithGroup s name = (if name = [] then s else s\<lparr>groups := groups s @ [name]\<rparr>)"

definition format :: "Sink \<Rightarrow> Record \<Rightarrow> Line" where
  "format s r =
     \<lparr>json = Json s,
      time = (if Time r = 0 then None else Some (Time r)),
      level = Level r,
      msg = Message r,
      entries = preformatted s @ map (Pair (groups s)) (attrs r)\<rparr>"

section \<open>The process\<close>

text \<open>
  \<^verbatim>\<open>ContextHandlerOptions\<close> and \<^verbatim>\<open>ContextHandler\<close>. The extractor is a Go
  closure: it may fail, may return attributes together with an error, and may read and
  update state of its own (type \<open>'x\<close>), which is how a call-counting extractor counts.
  A \<^verbatim>\<open>nil\<close> extractor is \<open>None\<close>.
\<close>

type_synonym 'x Extractor = "Context \<Rightarrow> 'x \<Rightarrow> (Attr list \<times> error option) \<times> 'x"

record 'x ContextHandlerOptions =
  UseJson :: bool
  Level :: Level
  AddSource :: bool
  SourceKey :: string
  Writer :: "Writer option"
  WithPID :: bool
  PIDKey :: string
  CallerSkip :: int
  ExtraAttrs :: "Attr list"
  AppendAttrFromContext :: "'x Extractor option"

record 'x ContextHandler =
  Handler :: Sink
  AddSource :: bool
  SourceKey :: string
  CallerSkip :: int
  AppendAttrFromContext :: "'x Extractor option"

text \<open>
  A \<^verbatim>\<open>slog.Handler\<close> installed in a \<^verbatim>\<open>slog.Logger\<close>: a bare sink, or a
  \<^verbatim>\<open>ContextHandler\<close>.
\<close>

datatype 'x slogHandler = SinkHandler Sink | CtxHandler "'x ContextHandler"

text \<open>
  The state of the process that the code reads and writes: the process identifier
  (\<^verbatim>\<open>os.Getpid\<close>), the clock (\<^verbatim>\<open>time.Now\<close>), what \<^verbatim>\<open>runtime.Caller\<close>
  reports for each skip depth inside the running \<open>Handle\<close> activation (\<open>None\<close> when it
  reports \<^verbatim>\<open>ok = false\<close>) and inside an activation entered from \<^verbatim>\<open>slog.Error\<close>,
  the state of the extractor closures, each writer's behaviour (the error it returns for
  a line, if any) and the lines it has accepted, and the handler of the process-wide
  default logger (\<^verbatim>\<open>slog.Default\<close>).
\<close>

record 'x World =
  Getpid :: int
  Now :: nat
  Caller :: "int \<Rightarrow> (string \<times> int) option"
  CallerInDiag :: "int \<Rightarrow> (string \<times> int) option"
  ext :: 'x
  refuses :: "Writer \<Rightarrow> Line \<Rightarrow> error option"
  out :: "Writer \<Rightarrow> Line list"
  Default :: "'x slogHandler"

definition Write :: "Writer \<Rightarrow> Line \<Rightarrow> 'x World \<Rightarrow> error option \<times> 'x World" where
  "Write wr l w =
     (case refuses w wr l of
        Some e \<Rightarrow> (Some e, w)
      | None \<Rightarrow> (None, w\<lparr>out := (out w)(wr := out w wr @ [l])\<rparr>))"

definition sink_Handle :: "Sink \<Rightarrow> Context \<Rightarrow> Record \<Rightarrow> 'x World \<Rightarrow> error option \<times> 'x World" where
  "sink_Handle s ctx r w = Write (Dest s) (format s r) w"

section \<open>Decimal formatting\<close>

text \<open>The verb \<^verbatim>\<open>%d\<close> of \<^verbatim>\<open>fmt.Sprintf\<close> on a Go \<^verbatim>\<open>int\<close>.\<close>

definition digit :: "nat \<Rightarrow> char" where
  "digit d = ''0123456789'' ! d"

fun digits :: "nat \<Rightarrow> string" where
  "digits n = (if n < 10 then [digit n] else digits (n div 10) @ [digit (n mod 10)])"

declare digits.simps [simp del]

definition itoa :: "int \<Rightarrow> string" where
  "itoa i = (if i < 0 then CHR ''-'' # digits (nat (- i)) else digits (nat i))"

section \<open>The handler decorator\<close>

text \<open>
  \<^verbatim>\<open>NewContextHandler\<close> (lines 33-75). The standard handler is built with the
  configured level and its own source tracking off; the process identifier and the extra
  attributes are baked into it with its \<^verbatim>\<open>WithAttrs\<close>, in this order.
\<close>

definition NewContextHandler :: "'x ContextHandlerOptions \<Rightarrow> 'x World \<Rightarrow> 'x ContextHandler" where
  "NewContextHandler options w =
     (let writer = (case Writer options of None \<Rightarrow> Stdout | Some wr \<Rightarrow> wr);
          handler = (if \<not> UseJson options
                     then NewTextHandler writer (ContextHandlerOptions.Level options)
                     else NewJSONHandler writer (ContextHandlerOptions.Level options));
          handler = (if WithPID options
                     then (let pidKey = (if PIDKey options \<noteq> [] then PIDKey options else ''pid'')
                           in sink_WithAttrs handler [(pidKey, Int64Value (Getpid w))])
                     else handler);
          handler = (if length (ExtraAttrs options) > 0
                     then sink_WithAttrs handler (ExtraAttrs options)
                     else handler)
      in \<lparr>Handler = handler,
          AddSource = ContextHandlerOptions.AddSource options,
          SourceKey = ContextHandlerOptions.SourceKey options,
          CallerSkip = ContextHandlerOptions.CallerSkip options,
          AppendAttrFromContext = ContextHandlerOptions.AppendAttrFromContext options\<rparr>)"

text \<open>
  \<^verbatim>\<open>Enabled\<close> is not declared by \<^verbatim>\<open>ContextHandler\<close>: it is promoted from the
  embedded \<^verbatim>\<open>slog.Handler\<close>.
\<close>

definition Enabled :: "'x ContextHandler \<Rightarrow> Level \<Rightarrow> bool" where
  "Enabled h l = sink_Enabled (Handler h) l"

definition handler_Enabled :: "'x slogHandler \<Rightarrow> Level \<Rightarrow> bool" where
  "handler_Enabled hdl l = (case hdl of SinkHandler s \<Rightarrow> sink_Enabled s l | CtxHandler h \<Rightarrow> Enabled h l)"

text \<open>Lines 79-96 of \<^verbatim>\<open>Handle\<close>: the source attribute.\<close>

definition addSource :: "'x ContextHandler \<Rightarrow> Record \<Rightarrow> 'x World \<Rightarrow> Record" where
  "addSource h r w =
     (if AddSource h
      then (let skip = (if CallerSkip h = 0 then 3 else CallerSkip h)
            in case Caller w skip of
                 Some (file, line) \<Rightarrow>
                   (let source = file @ '':'' @ itoa line;
                        sourceKey = (if SourceKey h \<noteq> [] then SourceKey h else ''source'')
                    in AddAttrs r [(sourceKey, StringValue source)])
               | None \<Rightarrow> r)
      else r)"

text \<open>
  \<^verbatim>\<open>Handle\<close> (lines 78-113), together with the logger front end of
  \<^verbatim>\<open>log/slog\<close> that it calls at line 105.

  Modelled from the spec: the logger front end (\<^verbatim>\<open>slog.Error\<close>,
  \<^verbatim>\<open>Logger.log\<close>), which belongs to Go's \<^verbatim>\<open>log/slog\<close> and is not part of
  the repository. Section 6 has records below the minimum level dropped before enrichment,
  section 7 makes such a record a silent no-op, and section 9 names the diagnostic fallback
  as the process-wide default logging instance. \<^verbatim>\<open>slog.Error(msg, args...)\<close> is
  \<^verbatim>\<open>Default().log(context.Background(), LevelError, msg, args...)\<close>, and
  \<^verbatim>\<open>Logger.log\<close> returns at once when its handler is not enabled for the level,
  otherwise builds a record stamped with the current time and passes it to the handler's
  \<^verbatim>\<open>Handle\<close>, discarding the result. Inside \<open>slog_Error\<close> the call stack is the
  deeper one, and it is the outer one again after the return. The recursion ends because
  the nested call carries the background context, on which \<open>Handle\<close> returns at line 99.
\<close>

function Handle :: "'x ContextHandler \<Rightarrow> Context \<Rightarrow> Record \<Rightarrow> 'x World \<Rightarrow> error option \<times> 'x World"
  and slog_Error :: "string \<Rightarrow> Attr list \<Rightarrow> 'x World \<Rightarrow> 'x World"
  and Logger_log :: "'x slogHandler \<Rightarrow> Context \<Rightarrow> Level \<Rightarrow> string \<Rightarrow> Attr list \<Rightarrow> 'x World \<Rightarrow> 'x World"
where
  "Handle h ctx r w =
     (let r = addSource h r w
      in if ctx = Background then sink_Handle (Handler h) ctx r w
         else (case AppendAttrFromContext h of
                 Some f \<Rightarrow>
                   (case f ctx (ext w) of
                      ((as, Some err), x) \<Rightarrow>
                        (let w = slog_Error ''failed to append attributes from context''
                                   [(''error'', StringValue (Error err))] (w\<lparr>ext := x\<rparr>)
                         in sink_Handle (Handler h) ctx r w)
                    | ((as, None), x) \<Rightarrow>
                        sink_Handle (Handler h) ctx (AddAttrs r as) (w\<lparr>ext := x\<rparr>))
               | None \<Rightarrow> sink_Handle (Handler h) ctx r w))"
| "slog_Error m args w =
     (let d = Logger_log (Default w) Background LevelError m args (w\<lparr>Caller := CallerInDiag w\<rparr>)
      in d\<lparr>Caller := Caller w\<rparr>)"
| "Logger_log hdl ctx l m args w =
     (if \<not> handler_Enabled hdl l then w
      else (let r = AddAttrs (NewRecord (Now w) l m) args
            in case hdl of
                 SinkHandler s \<Rightarrow> snd (sink_Handle s ctx r w)
               | CtxHandler h \<Rightarrow> snd (Handle h ctx r w)))"
  by pat_completeness auto
termination
  by (relation "measure (\<lambda>c. case c of
         Inl (h, ctx, r, w) \<Rightarrow> (if ctx = Background then 0 else 3)
       | Inr (Inl (m, args, w)) \<Rightarrow> 2
       | Inr (Inr (hdl, ctx, l, m, args, w)) \<Rightarrow> (if ctx = Background then 1 else 4))") auto

declare Handle.simps [simp del] slog_Error.simps [simp del] Logger_log.simps [simp del]

text \<open>\<^verbatim>\<open>WithAttrs\<close> (lines 117-125) and \<^verbatim>\<open>WithGroup\<close> (lines 129-137).\<close>

definition WithAttrs :: "'x ContextHandler \<Rightarrow> Attr list \<Rightarrow> 'x ContextHandler" where
  "WithAttrs h as =
     \<lparr>Handler = sink_WithAttrs (Handler h) as,
      AddSource = AddSource h,
      SourceKey = SourceKey h,
      CallerSkip = CallerSkip h,
      AppendAttrFromContext = AppendAttrFromContext h\<rparr>"

definition WithGroup :: "'x ContextHandler \<Rightarrow> string \<Rightarrow> 'x ContextHandler" where
  "WithGroup h name =
     \<lparr>Handler = sink_WithGroup (Handler h) name,
      AddSource = AddSource h,
      SourceKey = SourceKey h,
      CallerSkip = CallerSkip h,
      AppendAttrFromContext = AppendAttrFromContext h\<rparr>"

section \<open>Chains of derived handlers\<close>

text \<open>
  A derivation step is a call of \<^verbatim>\<open>WithAttrs\<close> or of \<^verbatim>\<open>WithGroup\<close>; a chain
  applies the steps from left to right, on the decorator and on a bare sink.
\<close>

datatype Derivation = DeriveAttrs "Attr list" | DeriveGroup string

fun derive1 :: "'x ContextHandler \<Rightarrow> Derivation \<Rightarrow> 'x ContextHandler" where
  "derive1 h (DeriveAttrs as) = WithAttrs h as"
| "derive1 h (DeriveGroup name) = WithGroup h name"

definition derive :: "'x ContextHandler \<Rightarrow> Derivation list \<Rightarrow> 'x ContextHandler" where
  "derive h ds = foldl derive1 h ds"

fun sink_derive1 :: "Sink \<Rightarrow> Derivation \<Rightarrow> Sink" where
  "sink_derive1 s (DeriveAttrs as) = sink_WithAttrs s as"
| "sink_derive1 s (DeriveGroup name) = sink_WithGroup s name"

definition sink_derive :: "Sink \<Rightarrow> Derivation list \<Rightarrow> Sink" where
  "sink_derive s ds = foldl sink_derive1 s ds"

section \<open>Observations used in the statements\<close>

text \<open>
  The record that reaches the wrapped sink at line 99 or line 112 of \<^verbatim>\<open>Handle\<close>:
  the source attribute first, then the extractor's attributes when it was called and
  succeeded.
\<close>

definition delegated :: "'x ContextHandler \<Rightarrow> Context \<Rightarrow> Record \<Rightarrow> 'x World \<Rightarrow> Record" where
  "delegated h ctx r w =
     (if ctx = Background then addSource h r w
      else (case AppendAttrFromContext h of
              Some f \<Rightarrow>
                (case f ctx (ext w) of
                   ((as, Some err), x) \<Rightarrow> addSource h r w
                 | ((as, None), x) \<Rightarrow> AddAttrs (addSource h r w) as)
            | None \<Rightarrow> addSource h r w))"


section \<open>Example configuration\<close>

text \<open>
  Concrete values on which the theorems below are evaluated: the configuration of the
  test \<^verbatim>\<open>TestHandle_AllFeatures\<close>, an extractor that counts its calls and
  succeeds, one that counts its calls and fails while still returning attributes (as in
  \<^verbatim>\<open>TestHandle_AppendAttrFromContextError\<close>), and a process whose default logger
  writes text to standard error.
\<close>

definition ex_counting :: "nat Extractor" where
  "ex_counting ctx n = (([(''request_id'', StringValue ''req-123'')], None), Suc n)"

definition ex_failing :: "nat Extractor" where
  "ex_failing ctx n =
     (([(''request_id'', StringValue ''12345''), (''user_id'', StringValue ''user-1'')],
       Some (errors_New ''context error'')), Suc n)"

definition ex_options :: "nat ContextHandlerOptions" where
  "ex_options =
     \<lparr>UseJson = True, Level = LevelInfo, AddSource = True, SourceKey = ''file_location'',
      Writer = Some (Buffer 0), WithPID = True, PIDKey = ''process_id'', CallerSkip = 0,
      ExtraAttrs = [(''service'', StringValue ''test'')],
      AppendAttrFromContext = Some ex_counting\<rparr>"

definition ex_failing_options :: "nat ContextHandlerOptions" where
  "ex_failing_options =
     \<lparr>UseJson = True, Level = LevelInfo, AddSource = True, SourceKey = ''file_location'',
      Writer = Some (Buffer 0), WithPID = True, PIDKey = ''process_id'', CallerSkip = 0,
      ExtraAttrs = [(''service'', StringValue ''test'')],
      AppendAttrFromContext = Some ex_failing\<rparr>"

text \<open>The same configuration with the minimum level raised to Warn.\<close>

definition ex_warn_options :: "nat ContextHandlerOptions" where
  "ex_warn_options =
     \<lparr>UseJson = True, Level = LevelWarn, AddSource = True, SourceKey = ''file_location'',
      Writer = Some (Buffer 0), WithPID = True, PIDKey = ''process_id'', CallerSkip = 0,
      ExtraAttrs = [(''service'', StringValue ''test'')],
      AppendAttrFromContext = Some ex_counting\<rparr>"


definition ex_world :: "nat World" where
  "ex_world =
     \<lparr>Getpid = 4242, Now = 1700000000,
      Caller = (\<lambda>skip. if skip = 3 then Some (''context_handler_test.go'', 336) else None),
      CallerInDiag = (\<lambda>skip. if skip = 3 then Some (''context_handler.go'', 105) else None),
      ext = 0, refuses = (\<lambda>wr l. None), out = (\<lambda>wr. []),
      Default = SinkHandler (NewTextHandler Stderr LevelInfo)\<rparr>"

text \<open>The same process with a writer behind the handler that fails on every write.\<close>

definition ex_broken_world :: "nat World" where
  "ex_broken_world =
     ex_world\<lparr>refuses := (\<lambda>wr l. if wr = Buffer 0 then Some (errors_New ''disk full'') else None)\<rparr>"

text \<open>
  The process of the README's usage example, where the application has installed a logger
  on the context handler as the default one (\<^verbatim>\<open>slog.SetDefault(logger)\<close>); here the
  handler's extractor fails.
\<close>

definition ex_installed_world :: "nat World" where
  "ex_installed_world =
     ex_world\<lparr>Default := CtxHandler (NewContextHandler ex_failing_options ex_world)\<rparr>"


definition ex_ctx :: Context where
  "ex_ctx = WithValue Background ''request_id'' ''req-123''"

definition ex_record :: Record where
  "ex_record = \<lparr>Time = 1699999999, Message = ''test message'', Level = LevelInfo,
                 attrs = [(''k'', StringValue ''v'')]\<rparr>"

lemmas ex_defs =
  ex_counting_def ex_options_def ex_world_def ex_ctx_def ex_record_def

lemmas model_defs =
  NewContextHandler_def NewTextHandler_def NewJSONHandler_def sink_Enabled_def
  sink_WithAttrs_def sink_WithGroup_def format_def Write_def sink_Handle_def
  Enabled_def handler_Enabled_def addSource_def AddAttrs_def NewRecord_def
  WithAttrs_def WithGroup_def LevelInfo_def LevelWarn_def LevelError_def
  itoa_def digits.simps digit_def Let_def

lemmas chain_defs = derive_def sink_derive_def

section \<open>What the sink and the front end leave alone\<close>

lemma sink_Handle_refuses: "refuses (snd (sink_Handle s ctx r w)) = refuses w"
  by (simp add: sink_Handle_def Write_def split: option.split)

lemma sink_Handle_ext: "ext (snd (sink_Handle s ctx r w)) = ext w"
  by (simp add: sink_Handle_def Write_def split: option.split)

lemma sink_Handle_length: "length (out w wr) \<le> length (out (snd (sink_Handle s ctx r w)) wr)"
  by (simp add: sink_Handle_def Write_def split: option.split)

lemma sink_Handle_emitted:
  "fst (sink_Handle s ctx r w) = None \<Longrightarrow>
   out (snd (sink_Handle s ctx r w)) (Dest s) = out w (Dest s) @ [format s r]"
  by (simp add: sink_Handle_def Write_def split: option.splits)

lemma Handle_Background:
  "Handle h Background r w = sink_Handle (Handler h) Background (addSource h r w) w"
  by (simp add: Handle.simps)

lemma Logger_log_Background_refuses:
  "refuses (Logger_log hdl Background l m args w) = refuses w"
  by (cases hdl) (simp_all add: Logger_log.simps Handle_Background sink_Handle_refuses)

lemma slog_Error_refuses: "refuses (slog_Error m args w) = refuses w"
  by (simp add: slog_Error.simps Logger_log_Background_refuses)

lemma Logger_log_Background_length:
  "length (out w wr) \<le> length (out (Logger_log hdl Background l m args w) wr)"
  by (cases hdl) (simp_all add: Logger_log.simps Handle_Background sink_Handle_length)

lemma slog_Error_length: "length (out w wr) \<le> length (out (slog_Error m args w) wr)"
  using Logger_log_Background_length [of "w\<lparr>Caller := CallerInDiag w\<rparr>" wr "Default w" LevelError m args]
  by (simp add: slog_Error.simps)

lemma Handle_delegated:
  "\<exists>w'. refuses w' = refuses w \<and> (\<forall>wr. length (out w wr) \<le> length (out w' wr)) \<and>
        Handle h ctx r w = sink_Handle (Handler h) ctx (delegated h ctx r w) w'"
proof (cases "ctx = Background")
  case True
  then show ?thesis by (auto simp: Handle_Background delegated_def)
next
  case False
  show ?thesis
  proof (cases "AppendAttrFromContext h")
    case None
    with False show ?thesis by (auto simp: Handle.simps delegated_def)
  next
    case (Some f)
    obtain as eo x where f: "f ctx (ext w) = ((as, eo), x)"
      by (metis surj_pair)
    show ?thesis
    proof (cases eo)
      case None
      with False Some f show ?thesis
        by (auto simp: Handle.simps delegated_def intro!: exI [of _ "w\<lparr>ext := x\<rparr>"])
    next
      case (Some err)
      with False \<open>AppendAttrFromContext h = Some f\<close> f show ?thesis
        using slog_Error_length [of "w\<lparr>ext := x\<rparr>"]
        by (auto simp: Handle.simps delegated_def slog_Error_refuses
            intro!: exI [of _ "slog_Error ''failed to append attributes from context''
                                   [(''error'', StringValue (Error err))] (w\<lparr>ext := x\<rparr>)"])
    qed
  qed
qed


lemma addSource_extractor [simp]:
  "addSource (h\<lparr>AppendAttrFromContext := e\<rparr>) r w = addSource h r w"
  by (simp add: addSource_def Let_def split: option.split)

lemma fst_sink_Handle: "fst (sink_Handle s ctx r w) = refuses w (Dest s) (format s r)"
  by (simp add: sink_Handle_def Write_def split: option.split)

section \<open>The background context\<close>

text \<open>
  Claim C2. When the context passed to \<open>Handle\<close> is the background context, the record
  (with the source attribute, if that is enabled) goes straight to the wrapped sink in the
  unchanged world; the state of the extractor closure is the one before the call, so a
  call-counting extractor counts nothing; and the result is the same whichever extractor
  is configured, or none.
\<close>

theorem background_context_skips_extractor:
  "Handle h Background r w = sink_Handle (Handler h) Background (addSource h r w) w
   \<and> ext (snd (Handle h Background r w)) = ext w
   \<and> Handle (h\<lparr>AppendAttrFromContext := Some f\<rparr>) Background r w
       = Handle (h\<lparr>AppendAttrFromContext := None\<rparr>) Background r w"
  by (simp add: Handle_Background sink_Handle_ext)

text \<open>
  On the example handler, whose extractor counts its calls: the count stays 0 on the
  background context and becomes 1 on a request context.
\<close>

theorem background_context_skips_extractor_witness:
  "ext (snd (Handle (NewContextHandler ex_options ex_world) Background ex_record ex_world)) = 0
   \<and> AppendAttrFromContext (NewContextHandler ex_options ex_world) = Some ex_counting
   \<and> ext (snd (Handle (NewContextHandler ex_options ex_world) ex_ctx ex_record ex_world)) = 1"
  using background_context_skips_extractor
    [of "NewContextHandler ex_options ex_world" ex_record ex_world ex_counting]
  by (simp add: Handle.simps ex_defs model_defs)

section \<open>The value returned by Handle\<close>

text \<open>
  Claim C6. For every handler, context, record and world, \<open>Handle\<close> is the wrapped
  sink's emit operation applied to the enriched record, in a world whose writers behave as
  before; so the value it returns is exactly what the sink's writer answers for the
  formatted record: the writer's error when it fails, no error otherwise, whatever the
  extractor and the source resolution did.
\<close>

theorem handle_returns_sink_result:
  "(\<exists>w'. refuses w' = refuses w
         \<and> Handle h ctx r w = sink_Handle (Handler h) ctx (delegated h ctx r w) w')
   \<and> fst (Handle h ctx r w)
       = refuses w (Dest (Handler h)) (format (Handler h) (delegated h ctx r w))"
proof -
  obtain w' where w': "refuses w' = refuses w"
    "Handle h ctx r w = sink_Handle (Handler h) ctx (delegated h ctx r w) w'"
    using Handle_delegated [of w h ctx r] by blast
  then show ?thesis by (auto simp: fst_sink_Handle)
qed

text \<open>
  With an extractor that fails: the writer's error comes back when the writer fails, and
  no error at all when it does not.
\<close>

theorem handle_returns_sink_result_witness:
  "fst (Handle (NewContextHandler ex_failing_options ex_world) ex_ctx ex_record ex_broken_world)
     = Some (errors_New ''disk full'')
   \<and> fst (Handle (NewContextHandler ex_failing_options ex_world) ex_ctx ex_record ex_world) = None"
  using handle_returns_sink_result
          [of ex_broken_world "NewContextHandler ex_failing_options ex_world" ex_ctx ex_record]
        handle_returns_sink_result
          [of ex_world "NewContextHandler ex_failing_options ex_world" ex_ctx ex_record]
  by (simp add: ex_defs ex_failing_def ex_failing_options_def ex_broken_world_def model_defs)

section \<open>The source attribute\<close>



text \<open>The string printed for a line number reads back, digit by digit, as that number.\<close>

lemma of_char_digit: "d < 10 \<Longrightarrow> of_char (digit d) = (48 + d :: nat)"
proof -
  assume "d < 10"
  then have "d \<in> {0, 1, 2, 3, 4, 5, 6, 7, 8, 9}" by auto
  then show ?thesis by (auto simp: digit_def)
qed

lemma digits_value: "foldl (\<lambda>a c. 10 * a + (of_char c - 48)) 0 (digits n) = n"
proof (induction n rule: digits.induct)
  case (1 n)
  show ?case
  proof (cases "n < 10")
    case True
    then show ?thesis by (subst digits.simps) (simp add: of_char_digit)
  next
    case False
    with 1 show ?thesis
      by (subst digits.simps) (simp add: of_char_digit)
  qed
qed



section \<open>Derived handlers\<close>

lemma derive_Cons: "derive h (d # ds) = derive (derive1 h d) ds"
  by (simp add: derive_def)

lemma sink_derive_Cons: "sink_derive s (d # ds) = sink_derive (sink_derive1 s d) ds"
  by (simp add: sink_derive_def)

lemma Handler_derive1: "derive1 h d = h\<lparr>Handler := sink_derive1 (Handler h) d\<rparr>"
  by (cases d) (simp_all add: WithAttrs_def WithGroup_def)

lemma derive_eq: "derive h ds = h\<lparr>Handler := sink_derive (Handler h) ds\<rparr>"
proof (induction ds arbitrary: h)
  case Nil
  show ?case by (simp add: derive_def sink_derive_def)
next
  case (Cons d ds)
  show ?case
    by (simp add: derive_Cons sink_derive_Cons Cons.IH Handler_derive1)
qed

text \<open>
  Claim C4. For every handler \<open>h\<close>, attribute list and group name, \<open>WithAttrs\<close> and
  \<open>WithGroup\<close> return \<open>h\<close> with only the wrapped sink replaced, by the sink that the
  wrapped sink's own \<open>WithAttrs\<close> or \<open>WithGroup\<close> returns: add-source, source key,
  caller skip and extractor are those of \<open>h\<close>. The same holds for a chain of any number
  of derivations, whose sink is the chain applied to the wrapped sink. Both methods have
  value receivers and are functions of \<open>h\<close> here, so \<open>h\<close> itself cannot change.
\<close>

theorem derivations_keep_configuration:
  "WithAttrs h as = h\<lparr>Handler := sink_WithAttrs (Handler h) as\<rparr>
   \<and> WithGroup h name = h\<lparr>Handler := sink_WithGroup (Handler h) name\<rparr>
   \<and> derive h ds = h\<lparr>Handler := sink_derive (Handler h) ds\<rparr>"
  by (simp add: derive_eq) (simp add: WithAttrs_def WithGroup_def)

text \<open>
  On the example handler, after one \<open>WithAttrs\<close> and one \<open>WithGroup\<close>: the
  configuration is the constructor's, and the sink carries the new attribute and the group.
\<close>

theorem derivations_keep_configuration_witness:
  "AddSource (derive (NewContextHandler ex_options ex_world)
                [DeriveAttrs [(''static'', StringValue ''x'')], DeriveGroup ''g''])
   \<and> SourceKey (derive (NewContextHandler ex_options ex_world)
                [DeriveAttrs [(''static'', StringValue ''x'')], DeriveGroup ''g'']) = ''file_location''
   \<and> CallerSkip (derive (NewContextHandler ex_options ex_world)
                [DeriveAttrs [(''static'', StringValue ''x'')], DeriveGroup ''g'']) = 0
   \<and> AppendAttrFromContext (derive (NewContextHandler ex_options ex_world)
                [DeriveAttrs [(''static'', StringValue ''x'')], DeriveGroup ''g'']) = Some ex_counting
   \<and> groups (Handler (derive (NewContextHandler ex_options ex_world)
                [DeriveAttrs [(''static'', StringValue ''x'')], DeriveGroup ''g''])) = [''g'']
   \<and> preformatted (Handler (derive (NewContextHandler ex_options ex_world)
                [DeriveAttrs [(''static'', StringValue ''x'')], DeriveGroup ''g'']))
      = [([], ''process_id'', Int64Value 4242), ([], ''service'', StringValue ''test''),
         ([], ''static'', StringValue ''x'')]"
  using derivations_keep_configuration
    [of "NewContextHandler ex_options ex_world" "[]" "''g''"
        "[DeriveAttrs [(''static'', StringValue ''x'')], DeriveGroup ''g'']"]
  by (simp add: sink_derive_def ex_options_def ex_world_def model_defs)

section \<open>A failing extractor\<close>

lemma Handle_extractor_failed:
  assumes "AppendAttrFromContext h = Some f" and "ctx \<noteq> Background"
    and "f ctx (ext w) = ((as, Some err), x)"
  shows "Handle h ctx r w
         = sink_Handle (Handler h) ctx (addSource h r w)
             (slog_Error ''failed to append attributes from context''
                [(''error'', StringValue (Error err))] (w\<lparr>ext := x\<rparr>))"
  using assms by (simp add: Handle.simps)

lemma slog_Error_SinkHandler:
  assumes "Default w = SinkHandler s"
  shows "slog_Error m args w
         = (if sink_Enabled s LevelError
            then snd (sink_Handle s Background (AddAttrs (NewRecord (Now w) LevelError m) args) w)
            else w)"
  using assms
  by (simp add: slog_Error.simps Logger_log.simps handler_Enabled_def sink_Handle_def Write_def
      split: option.split)

lemma slog_Error_CtxHandler:
  assumes "Default w = CtxHandler h'"
  shows "slog_Error m args w
         = (if Enabled h' LevelError
            then (snd (Handle h' Background (AddAttrs (NewRecord (Now w) LevelError m) args)
                         (w\<lparr>Caller := CallerInDiag w\<rparr>)))\<lparr>Caller := Caller w\<rparr>
            else w)"
  using assms
  by (simp add: slog_Error.simps Logger_log.simps handler_Enabled_def)

text \<open>
  Claim C1, amended. For every handler with an extractor and every context other than the
  background one, when the extractor returns an error: \<open>Handle\<close> is the wrapped sink's
  emit operation on the record with the source attribute only, none of the attributes the
  extractor returned; the value returned is the sink writer's answer for that record, never
  the extractor's error; and the failure is reported by one call of \<^verbatim>\<open>slog.Error\<close>,
  made before the record is delegated, to the process-wide default logger. When that
  logger's handler is a bare sink, the call is one emit on that sink of one record at Error
  level (nothing if the sink is not enabled at that level). When it is a
  \<^verbatim>\<open>ContextHandler\<close>, this one included, the call goes through that handler's
  \<open>Handle\<close> with the background context (nothing if it is not enabled at Error level).
\<close>

theorem extractor_failure_is_recovered:
  assumes "AppendAttrFromContext h = Some f" and "ctx \<noteq> Background"
    and "f ctx (ext w) = ((as, Some err), x)"
  shows "Handle h ctx r w
         = sink_Handle (Handler h) ctx (addSource h r w)
             (slog_Error ''failed to append attributes from context''
                [(''error'', StringValue (Error err))] (w\<lparr>ext := x\<rparr>))
       \<and> fst (Handle h ctx r w)
         = refuses w (Dest (Handler h)) (format (Handler h) (addSource h r w))
       \<and> (\<forall>s. Default w = SinkHandler s \<longrightarrow>
            slog_Error ''failed to append attributes from context''
                [(''error'', StringValue (Error err))] (w\<lparr>ext := x\<rparr>)
            = (if sink_Enabled s LevelError
               then snd (sink_Handle s Background
                           (AddAttrs (NewRecord (Now w) LevelError
                                        ''failed to append attributes from context'')
                              [(''error'', StringValue (Error err))]) (w\<lparr>ext := x\<rparr>))
               else w\<lparr>ext := x\<rparr>))
       \<and> (\<forall>h'. Default w = CtxHandler h' \<longrightarrow>
            slog_Error ''failed to append attributes from context''
                [(''error'', StringValue (Error err))] (w\<lparr>ext := x\<rparr>)
            = (if Enabled h' LevelError
               then (snd (Handle h' Background
                           (AddAttrs (NewRecord (Now w) LevelError
                                        ''failed to append attributes from context'')
                              [(''error'', StringValue (Error err))])
                           (w\<lparr>ext := x, Caller := CallerInDiag w\<rparr>)))\<lparr>Caller := Caller w\<rparr>
               else w\<lparr>ext := x\<rparr>))"
proof (intro conjI allI impI)
  show eq: "Handle h ctx r w
         = sink_Handle (Handler h) ctx (addSource h r w)
             (slog_Error ''failed to append attributes from context''
                [(''error'', StringValue (Error err))] (w\<lparr>ext := x\<rparr>))"
    using assms by (rule Handle_extractor_failed)
  show "fst (Handle h ctx r w)
         = refuses w (Dest (Handler h)) (format (Handler h) (addSource h r w))"
    by (simp add: eq fst_sink_Handle slog_Error_refuses)
next
  fix s assume "Default w = SinkHandler s"
  then show "slog_Error ''failed to append attributes from context''
                [(''error'', StringValue (Error err))] (w\<lparr>ext := x\<rparr>)
            = (if sink_Enabled s LevelError
               then snd (sink_Handle s Background
                           (AddAttrs (NewRecord (Now w) LevelError
                                        ''failed to append attributes from context'')
                              [(''error'', StringValue (Error err))]) (w\<lparr>ext := x\<rparr>))
               else w\<lparr>ext := x\<rparr>)"
    by (simp add: slog_Error_SinkHandler)
next
  fix h' assume "Default w = CtxHandler h'"
  then show "slog_Error ''failed to append attributes from context''
                [(''error'', StringValue (Error err))] (w\<lparr>ext := x\<rparr>)
            = (if Enabled h' LevelError
               then (snd (Handle h' Background
                           (AddAttrs (NewRecord (Now w) LevelError
                                        ''failed to append attributes from context'')
                              [(''error'', StringValue (Error err))])
                           (w\<lparr>ext := x, Caller := CallerInDiag w\<rparr>)))\<lparr>Caller := Caller w\<rparr>
               else w\<lparr>ext := x\<rparr>)"
    by (simp add: slog_Error_CtxHandler)
qed


text \<open>
  On the example handler with the failing extractor, in the process whose default logger
  writes to standard error: no error, one extractor call, the record on the handler's
  writer without \<open>request_id\<close> and \<open>user_id\<close>, one diagnostic on standard error.
\<close>

theorem extractor_failure_is_recovered_witness:
  "fst (Handle (NewContextHandler ex_failing_options ex_world) ex_ctx ex_record ex_world) = None
   \<and> ext (snd (Handle (NewContextHandler ex_failing_options ex_world) ex_ctx ex_record ex_world)) = 1
   \<and> out (snd (Handle (NewContextHandler ex_failing_options ex_world) ex_ctx ex_record ex_world))
        (Buffer 0)
      = [\<lparr>json = True, time = Some 1699999999, level = 0, msg = ''test message'',
          entries = [([], ''process_id'', Int64Value 4242), ([], ''service'', StringValue ''test''),
                     ([], ''k'', StringValue ''v''),
                     ([], ''file_location'', StringValue ''context_handler_test.go:336'')]\<rparr>]
   \<and> out (snd (Handle (NewContextHandler ex_failing_options ex_world) ex_ctx ex_record ex_world))
        Stderr
      = [\<lparr>json = False, time = Some 1700000000, level = 8,
          msg = ''failed to append attributes from context'',
          entries = [([], ''error'', StringValue ''context error'')]\<rparr>]"
proof -
  let ?h = "NewContextHandler ex_failing_options ex_world"
  have 1: "AppendAttrFromContext ?h = Some ex_failing"
    by (simp add: ex_defs ex_failing_def ex_failing_options_def model_defs)
  have 2: "ex_ctx \<noteq> Background"
    by (simp add: ex_ctx_def)
  have 3: "ex_failing ex_ctx (ext ex_world)
           = (([(''request_id'', StringValue ''12345''), (''user_id'', StringValue ''user-1'')],
               Some (errors_New ''context error'')), 1)"
    by (simp add: ex_defs ex_failing_def ex_failing_options_def)
  have 4: "Default ex_world = SinkHandler (NewTextHandler Stderr LevelInfo)"
    by (simp add: ex_defs ex_failing_def ex_failing_options_def)
  note t = extractor_failure_is_recovered [OF 1 2 3, of ex_record]
  note a = t [THEN conjunct1]
  note b = t [THEN conjunct2, THEN conjunct2, THEN conjunct1, rule_format, OF 4]
  show ?thesis
    unfolding a b by (simp add: ex_defs ex_failing_def ex_failing_options_def model_defs)
qed

text \<open>
  The diagnostic channel need not be distinct from the handler. In the process of the
  README, where the handler is the default logger's, and its extractor fails on a request
  context: \<open>Handle\<close> reports the failure through
  \<^verbatim>\<open>slog.Error\<close>, which enters the \<open>Handle\<close> of this same handler with the
  background context. The handler's own writer receives the diagnostic, enriched with the
  handler's process identifier, static attribute and source attribute (line 105 of the
  handler's file), and then the record; standard error receives nothing.
\<close>

theorem diagnostic_through_same_handler_counterexample:
  "Default ex_installed_world = CtxHandler (NewContextHandler ex_failing_options ex_world)
   \<and> out (snd (Handle (NewContextHandler ex_failing_options ex_world) ex_ctx ex_record
                  ex_installed_world)) (Buffer 0)
      = [\<lparr>json = True, time = Some 1700000000, level = 8,
          msg = ''failed to append attributes from context'',
          entries = [([], ''process_id'', Int64Value 4242), ([], ''service'', StringValue ''test''),
                     ([], ''error'', StringValue ''context error''),
                     ([], ''file_location'', StringValue ''context_handler.go:105'')]\<rparr>,
         \<lparr>json = True, time = Some 1699999999, level = 0, msg = ''test message'',
          entries = [([], ''process_id'', Int64Value 4242), ([], ''service'', StringValue ''test''),
                     ([], ''k'', StringValue ''v''),
                     ([], ''file_location'', StringValue ''context_handler_test.go:336'')]\<rparr>]
   \<and> out (snd (Handle (NewContextHandler ex_failing_options ex_world) ex_ctx ex_record
                  ex_installed_world)) Stderr = []"
  by (simp add: Handle.simps slog_Error.simps Logger_log.simps ex_defs ex_failing_def ex_failing_options_def ex_installed_world_def model_defs)

section \<open>What reaches the writer\<close>

lemma fst_Handle:
  "fst (Handle h ctx r w)
   = refuses w (Dest (Handler h)) (format (Handler h) (delegated h ctx r w))"
proof -
  obtain w' where "refuses w' = refuses w"
    "Handle h ctx r w = sink_Handle (Handler h) ctx (delegated h ctx r w) w'"
    using Handle_delegated [of w h ctx r] by blast
  then show ?thesis by (simp add: fst_sink_Handle)
qed

lemma Handle_emitted:
  assumes "fst (Handle h ctx r w) = None"
  shows "last (out (snd (Handle h ctx r w)) (Dest (Handler h)))
           = format (Handler h) (delegated h ctx r w)"
    and "length (out w (Dest (Handler h)))
           < length (out (snd (Handle h ctx r w)) (Dest (Handler h)))"
proof -
  obtain w' where w': "\<forall>wr. length (out w wr) \<le> length (out w' wr)"
    "Handle h ctx r w = sink_Handle (Handler h) ctx (delegated h ctx r w) w'"
    using Handle_delegated [of w h ctx r] by blast
  from assms w'(2) have
    e: "out (snd (Handle h ctx r w)) (Dest (Handler h))
        = out w' (Dest (Handler h)) @ [format (Handler h) (delegated h ctx r w)]"
    using sink_Handle_emitted [of "Handler h" ctx "delegated h ctx r w" w'] by simp
  show "last (out (snd (Handle h ctx r w)) (Dest (Handler h)))
           = format (Handler h) (delegated h ctx r w)"
    by (simp add: e)
  show "length (out w (Dest (Handler h)))
           < length (out (snd (Handle h ctx r w)) (Dest (Handler h)))"
    using w'(1) by (simp add: e less_Suc_eq_le)
qed

lemma sink_derive1_fixed:
  "Dest (sink_derive1 s d) = Dest s" "MinLevel (sink_derive1 s d) = MinLevel s"
  "Json (sink_derive1 s d) = Json s"
  by (cases d; simp add: sink_WithAttrs_def sink_WithGroup_def)+

lemma sink_derive_fixed:
  "Dest (sink_derive s ds) = Dest s \<and> MinLevel (sink_derive s ds) = MinLevel s
   \<and> Json (sink_derive s ds) = Json s"
proof (induction ds arbitrary: s)
  case Nil
  show ?case by (simp add: sink_derive_def)
next
  case (Cons d ds)
  show ?case by (simp add: sink_derive_Cons Cons.IH sink_derive1_fixed)
qed

lemma preformatted_sink_derive1:
  "set (preformatted s) \<subseteq> set (preformatted (sink_derive1 s d))"
  by (cases d) (auto simp: sink_WithAttrs_def sink_WithGroup_def)

lemma preformatted_sink_derive:
  "set (preformatted s) \<subseteq> set (preformatted (sink_derive s ds))"
proof (induction ds arbitrary: s)
  case Nil
  show ?case by (simp add: sink_derive_def)
next
  case (Cons d ds)
  show ?case
    using preformatted_sink_derive1 [of s d] Cons.IH [of "sink_derive1 s d"]
    by (auto simp: sink_derive_Cons)
qed

lemma NewContextHandler_pid:
  assumes "WithPID options"
  shows "([], if PIDKey options = [] then ''pid'' else PIDKey options, Int64Value (Getpid w))
         \<in> set (preformatted (Handler (NewContextHandler options w)))"
  using assms
  by (simp add: NewContextHandler_def NewTextHandler_def NewJSONHandler_def sink_WithAttrs_def Let_def)

lemma NewContextHandler_fixed:
  "MinLevel (Handler (NewContextHandler options w)) = ContextHandlerOptions.Level options"
  "Dest (Handler (NewContextHandler options w))
     = (case Writer options of None \<Rightarrow> Stdout | Some wr \<Rightarrow> wr)"
  "groups (Handler (NewContextHandler options w)) = []"
  "AddSource (NewContextHandler options w) = ContextHandlerOptions.AddSource options"
  "SourceKey (NewContextHandler options w) = ContextHandlerOptions.SourceKey options"
  "CallerSkip (NewContextHandler options w) = ContextHandlerOptions.CallerSkip options"
  "AppendAttrFromContext (NewContextHandler options w)
     = ContextHandlerOptions.AppendAttrFromContext options"
  by (simp_all add: NewContextHandler_def NewTextHandler_def NewJSONHandler_def sink_WithAttrs_def Let_def)

section \<open>The process identifier\<close>

text \<open>
  Claim C5. For every handler constructed with \<^verbatim>\<open>WithPID\<close> set, and every handler
  derived from it by a chain of \<open>WithAttrs\<close> and \<open>WithGroup\<close> of any length:
  whenever \<open>Handle\<close> emits a record (returns no error), the line it has written to the
  sink's writer contains, at top level (under no group), the attribute whose key is the
  configured \<^verbatim>\<open>PIDKey\<close>, or \<open>''pid''\<close> when that is empty, and whose value is the
  process identifier read at construction. This holds for a record of any level.
\<close>

theorem pid_attribute_in_every_record:
  assumes "WithPID options"
    and "h = derive (NewContextHandler options w0) ds"
    and "fst (Handle h ctx r w) = None"
  shows "([], if PIDKey options = [] then ''pid'' else PIDKey options, Int64Value (Getpid w0))
         \<in> set (entries (last (out (snd (Handle h ctx r w)) (Dest (Handler h)))))"
proof -
  have "([], if PIDKey options = [] then ''pid'' else PIDKey options, Int64Value (Getpid w0))
        \<in> set (preformatted (Handler h))"
    using NewContextHandler_pid [OF assms(1), of w0]
      preformatted_sink_derive [of "Handler (NewContextHandler options w0)" ds]
    by (auto simp: assms(2) derive_eq)
  then show ?thesis
    by (simp add: Handle_emitted(1) [OF assms(3)] format_def)
qed


text \<open>On the example handler after one \<open>WithAttrs\<close> and one \<open>WithGroup\<close>.\<close>

theorem pid_attribute_in_every_record_witness:
  "WithPID ex_options
   \<and> fst (Handle (derive (NewContextHandler ex_options ex_world)
                  [DeriveAttrs [(''static'', StringValue ''x'')], DeriveGroup ''g''])
            ex_ctx ex_record ex_world) = None
   \<and> ([], ''process_id'', Int64Value 4242)
      \<in> set (entries (last (out (snd (Handle (derive (NewContextHandler ex_options ex_world)
                  [DeriveAttrs [(''static'', StringValue ''x'')], DeriveGroup ''g''])
            ex_ctx ex_record ex_world)) (Buffer 0))))"
proof -
  let ?h = "derive (NewContextHandler ex_options ex_world)
              [DeriveAttrs [(''static'', StringValue ''x'')], DeriveGroup ''g'']"
  have a: "WithPID ex_options"
    by (simp add: ex_defs)
  have b: "fst (Handle ?h ex_ctx ex_record ex_world) = None"
    by (simp add: Handle.simps chain_defs ex_defs model_defs)
  have c: "Dest (Handler ?h) = Buffer 0"
    by (simp add: chain_defs ex_defs model_defs)
  have d: "(if PIDKey ex_options = [] then ''pid'' else PIDKey ex_options) = ''process_id''"
    "Getpid ex_world = 4242"
    by (simp_all add: ex_defs)
  show ?thesis
    using a b pid_attribute_in_every_record [OF a refl b]
    by (simp only: c d)
qed

section \<open>The minimum level\<close>

lemma Logger_log_CtxHandler:
  "Logger_log (CtxHandler h) ctx l m args w
   = (if Enabled h l then snd (Handle h ctx (AddAttrs (NewRecord (Now w) l m) args) w) else w)"
  by (simp add: Logger_log.simps handler_Enabled_def)

lemma Handle_accepted:
  assumes "refuses w (Dest (Handler h)) = (\<lambda>l. None)"
  shows "fst (Handle h ctx r w) = None"
  by (simp add: fst_Handle assms)

text \<open>
  Claim C7. For every handler constructed with minimum level \<open>L\<close> (and every handler
  derived from it), the level check \<open>Enabled\<close> is the wrapped sink's own check and says
  \<open>L \<le> R\<close>; and a logger on the handler, whose writer accepts what it is given, writes
  output for a logging call of level \<open>R\<close> exactly when \<open>L \<le> R\<close>.
\<close>

theorem output_iff_level_enabled:
  assumes "h = derive (NewContextHandler options w0) ds"
    and "refuses w (Dest (Handler h)) = (\<lambda>l. None)"
  shows "Enabled h R = sink_Enabled (Handler h) R
       \<and> Enabled h R = (ContextHandlerOptions.Level options \<le> R)
       \<and> (out (Logger_log (CtxHandler h) ctx R m args w) (Dest (Handler h))
            \<noteq> out w (Dest (Handler h)))
         = (ContextHandlerOptions.Level options \<le> R)"
proof -
  have en: "sink_Enabled (Handler h) R = (ContextHandlerOptions.Level options \<le> R)"
    by (simp add: sink_Enabled_def assms(1) derive_eq sink_derive_fixed NewContextHandler_fixed)
  have "out (snd (Handle h ctx r w)) (Dest (Handler h)) \<noteq> out w (Dest (Handler h))" for r
    using Handle_emitted(2) [OF Handle_accepted [OF assms(2)], of ctx r] by auto
  then show ?thesis
    by (simp add: Enabled_def en Logger_log_CtxHandler)
qed

text \<open>
  The test \<^verbatim>\<open>TestHandle_RespectsLogLevel\<close>: with minimum level Warn, the Info call
  writes nothing, the Warn and Error calls do.
\<close>

theorem output_iff_level_enabled_witness:
  "refuses ex_world (Dest (Handler (NewContextHandler ex_warn_options ex_world))) = (\<lambda>l. None)
   \<and> out (Logger_log (CtxHandler (NewContextHandler ex_warn_options ex_world)) ex_ctx LevelInfo
            ''info message'' [] ex_world) (Buffer 0) = out ex_world (Buffer 0)
   \<and> out (Logger_log (CtxHandler (NewContextHandler ex_warn_options ex_world)) ex_ctx LevelWarn
            ''warn message'' [] ex_world) (Buffer 0) \<noteq> out ex_world (Buffer 0)
   \<and> out (Logger_log (CtxHandler (NewContextHandler ex_warn_options ex_world)) ex_ctx LevelError
            ''error message'' [] ex_world) (Buffer 0) \<noteq> out ex_world (Buffer 0)"
proof -
  let ?h = "NewContextHandler ex_warn_options ex_world"
  have a: "?h = derive (NewContextHandler ex_warn_options ex_world) []"
    by (simp add: derive_def)
  have b: "refuses ex_world (Dest (Handler ?h)) = (\<lambda>l. None)"
    by (simp add: ex_defs ex_warn_options_def)
  have c: "Dest (Handler ?h) = Buffer 0"
    by (simp add: ex_defs ex_warn_options_def model_defs)
  have d: "ContextHandlerOptions.Level ex_warn_options = 4" "LevelInfo = 0" "LevelWarn = 4"
    "LevelError = 8"
    by (simp_all add: ex_defs ex_warn_options_def model_defs)
  show ?thesis
    using b
      output_iff_level_enabled [OF a b, of LevelInfo ex_ctx "''info message''" "[]"]
      output_iff_level_enabled [OF a b, of LevelWarn ex_ctx "''warn message''" "[]"]
      output_iff_level_enabled [OF a b, of LevelError ex_ctx "''error message''" "[]"]
    by (simp only: c d) simp
qed

lemma sink_Handle_MinLevel: "sink_Handle (s\<lparr>MinLevel := l\<rparr>) ctx r w = sink_Handle s ctx r w"
  by (simp add: sink_Handle_def format_def)

lemma addSource_Handler: "addSource (h\<lparr>Handler := s\<rparr>) r w = addSource h r w"
  by (simp add: addSource_def Let_def split: option.split)

lemma Handle_MinLevel:
  "Handle (h\<lparr>Handler := (Handler h)\<lparr>MinLevel := l\<rparr>\<rparr>) ctx r w = Handle h ctx r w"
  by (simp add: Handle.simps [of h] Handle.simps [of "h\<lparr>Handler := (Handler h)\<lparr>MinLevel := l\<rparr>\<rparr>"]
        addSource_Handler sink_Handle_MinLevel Let_def split: option.split prod.split)

text \<open>
  Claim C10. \<open>Handle\<close> itself does not filter by level: its result is the same whatever
  the minimum level of the wrapped sink; when the sink's writer accepts what it is given,
  \<open>Handle\<close> returns no error and the writer has received one more line, the fully
  enriched record, also for a record below the minimum level. The cutoff is the front end's:
  \<^verbatim>\<open>Logger.log\<close> does nothing when \<open>Enabled\<close> is false, and calls \<open>Handle\<close>
  when it is true.
\<close>

theorem handle_does_not_filter_by_level:
  "Handle (h\<lparr>Handler := (Handler h)\<lparr>MinLevel := l'\<rparr>\<rparr>) ctx r w = Handle h ctx r w
   \<and> (refuses w (Dest (Handler h)) = (\<lambda>l. None) \<longrightarrow>
        fst (Handle h ctx r w) = None
        \<and> length (out w (Dest (Handler h)))
            < length (out (snd (Handle h ctx r w)) (Dest (Handler h)))
        \<and> last (out (snd (Handle h ctx r w)) (Dest (Handler h)))
            = format (Handler h) (delegated h ctx r w))
   \<and> (\<not> Enabled h l \<longrightarrow> Logger_log (CtxHandler h) ctx l m args w = w)
   \<and> (Enabled h l \<longrightarrow>
        Logger_log (CtxHandler h) ctx l m args w
          = snd (Handle h ctx (AddAttrs (NewRecord (Now w) l m) args) w))"
  using Handle_emitted [of h ctx r w]
  by (simp add: Handle_MinLevel Handle_accepted Logger_log_CtxHandler)

text \<open>
  With minimum level Warn and a record at Info: a direct call of \<open>Handle\<close> writes the
  record with all its enrichment, and the same call through the logger does nothing.
\<close>

theorem handle_does_not_filter_by_level_witness:
  "\<not> Enabled (NewContextHandler ex_warn_options ex_world) (Record.Level ex_record)
   \<and> fst (Handle (NewContextHandler ex_warn_options ex_world) ex_ctx ex_record ex_world) = None
   \<and> last (out (snd (Handle (NewContextHandler ex_warn_options ex_world) ex_ctx ex_record ex_world))
        (Buffer 0))
      = \<lparr>json = True, time = Some 1699999999, level = 0, msg = ''test message'',
         entries = [([], ''process_id'', Int64Value 4242), ([], ''service'', StringValue ''test''),
                    ([], ''k'', StringValue ''v''),
                    ([], ''file_location'', StringValue ''context_handler_test.go:336''),
                    ([], ''request_id'', StringValue ''req-123'')]\<rparr>
   \<and> Logger_log (CtxHandler (NewContextHandler ex_warn_options ex_world)) ex_ctx
        (Record.Level ex_record) ''test message'' [(''k'', StringValue ''v'')] ex_world = ex_world"
proof -
  let ?h = "NewContextHandler ex_warn_options ex_world"
  have a: "\<not> Enabled ?h (Record.Level ex_record)"
    by (simp add: ex_defs ex_warn_options_def model_defs)
  have b: "refuses ex_world (Dest (Handler ?h)) = (\<lambda>l. None)"
    by (simp add: ex_defs ex_warn_options_def)
  have c: "Dest (Handler ?h) = Buffer 0"
    by (simp add: ex_defs ex_warn_options_def model_defs)
  have d: "format (Handler ?h) (delegated ?h ex_ctx ex_record ex_world)
      = \<lparr>json = True, time = Some 1699999999, level = 0, msg = ''test message'',
         entries = [([], ''process_id'', Int64Value 4242), ([], ''service'', StringValue ''test''),
                    ([], ''k'', StringValue ''v''),
                    ([], ''file_location'', StringValue ''context_handler_test.go:336''),
                    ([], ''request_id'', StringValue ''req-123'')]\<rparr>"
    by (simp add: delegated_def ex_defs ex_warn_options_def model_defs)
  show ?thesis
    using a b
      handle_does_not_filter_by_level
        [where h = ?h and ctx = ex_ctx and r = ex_record and w = ex_world
           and l = "Record.Level ex_record" and m = "''test message''"
           and args = "[(''k'', StringValue ''v'')]" and l' = 0]
    by (simp only: c d) simp
qed

section \<open>Attributes, groups and derived handlers together\<close>








section \<open>Two runs\<close>






end
